theory Spec2Isabelle
  imports Complex_Main
begin

section \<open>The quaternion chart (gtsam/geometry/Quaternion.h)\<close>

text \<open>
  \<^verbatim>\<open>MakeQuaternionChart<_Scalar, _Options>\<close> is a template over the scalar type. The
  embedding instantiates the scalar (and the \<^verbatim>\<open>double\<close>s of \<^verbatim>\<open>Logmap\<close>) with
  \<^typ>\<open>real\<close>: every arithmetic operation, \<^verbatim>\<open>cos\<close>, \<^verbatim>\<open>sin\<close>, \<^verbatim>\<open>acos\<close> and \<^verbatim>\<open>sqrt\<close> is
  the exact one, \<^verbatim>\<open>M_PI\<close> is \<^term>\<open>pi\<close>, and the thresholds are the exact decimals that
  the source writes. Rounding of IEEE doubles is outside the model.

  A tangent vector \<^verbatim>\<open>Omega\<close> is a fixed-size 3-vector; a quaternion \<^verbatim>\<open>Q\<close> is its scalar
  part \<^verbatim>\<open>w()\<close> together with its vector part \<^verbatim>\<open>vec()\<close>.
\<close>

type_synonym Omega = "real \<times> real \<times> real"

record Quaternion =
  w :: real
  vec :: Omega

text \<open>The operations of the Eigen library that the chart calls.\<close>

definition Zero :: Omega where
  \<comment> \<open>\<^verbatim>\<open>Omega::Zero()\<close>\<close>
  "Zero = (0, 0, 0)"

definition Identity :: Quaternion where
  \<comment> \<open>\<^verbatim>\<open>Q::Identity()\<close>: scalar part 1, vector part 0\<close>
  "Identity = \<lparr>w = 1, vec = (0, 0, 0)\<rparr>"

definition scale :: "real \<Rightarrow> Omega \<Rightarrow> Omega" where
  \<comment> \<open>scalar times vector\<close>
  "scale c v = (case v of (a, b, d) \<Rightarrow> (c * a, c * b, c * d))"

definition divide_by :: "Omega \<Rightarrow> real \<Rightarrow> Omega" where
  \<comment> \<open>vector divided by scalar, \<^verbatim>\<open>omega / angle\<close>\<close>
  "divide_by v c = (case v of (a, b, d) \<Rightarrow> (a / c, b / c, d / c))"

definition difference :: "Omega \<Rightarrow> Omega \<Rightarrow> Omega" where
  \<comment> \<open>vector minus vector\<close>
  "difference u v = (case (u, v) of ((a, b, d), (a', b', d')) \<Rightarrow> (a - a', b - b', d - d'))"

definition norm3 :: "Omega \<Rightarrow> real" where
  \<comment> \<open>\<^verbatim>\<open>omega.norm()\<close>, the Euclidean norm\<close>
  "norm3 v = (case v of (a, b, d) \<Rightarrow> sqrt (a * a + b * b + d * d))"

definition dummy_precision :: real where
  \<comment> \<open>\<^verbatim>\<open>NumTraits<double>::dummy_precision()\<close>, the default argument of \<^verbatim>\<open>isZero\<close>\<close>
  "dummy_precision = 1 / 10 ^ 12"

definition isZero :: "Omega \<Rightarrow> bool" where
  \<comment> \<open>\<^verbatim>\<open>omega.isZero()\<close>: every coefficient is much smaller than 1, that is
      \<^verbatim>\<open>abs(c) <= abs(1) * prec\<close> with the default precision\<close>
  "isZero v = (case v of (a, b, d) \<Rightarrow>
     \<bar>a\<bar> \<le> \<bar>1\<bar> * dummy_precision \<and> \<bar>b\<bar> \<le> \<bar>1\<bar> * dummy_precision \<and> \<bar>d\<bar> \<le> \<bar>1\<bar> * dummy_precision)"

definition AngleAxis :: "real \<Rightarrow> Omega \<Rightarrow> Quaternion" where
  \<comment> \<open>\<^verbatim>\<open>Q(Eigen::AngleAxis<_Scalar>(angle, axis))\<close>: half angle \<^verbatim>\<open>ha = 0.5 * angle\<close>,
      scalar part \<^verbatim>\<open>cos(ha)\<close>, vector part \<^verbatim>\<open>sin(ha) * axis\<close>\<close>
  "AngleAxis angle axis = (let ha = 0.5 * angle in \<lparr>w = cos ha, vec = scale (sin ha) axis\<rparr>)"

definition negate :: "Quaternion \<Rightarrow> Quaternion" where
  \<comment> \<open>the antipodal representative: all four coefficients negated\<close>
  "negate q = \<lparr>w = - w q, vec = scale (- 1) (vec q)\<rparr>"

definition squaredNorm :: "Quaternion \<Rightarrow> real" where
  \<comment> \<open>\<^verbatim>\<open>q.squaredNorm()\<close>; a unit quaternion has squared norm 1\<close>
  "squaredNorm q = (case vec q of (a, b, d) \<Rightarrow> w q * w q + a * a + b * b + d * d)"

definition coeffs_distance :: "Quaternion \<Rightarrow> Quaternion \<Rightarrow> real" where
  \<comment> \<open>the Euclidean norm of the difference of the four coefficients,
      \<^verbatim>\<open>(q1.coeffs() - q2.coeffs()).norm()\<close>\<close>
  "coeffs_distance q1 q2 = sqrt ((w q1 - w q2)\<^sup>2 + (norm3 (difference (vec q1) (vec q2)))\<^sup>2)"

subsection \<open>Expmap\<close>

definition Expmap_angle_axis :: "real \<Rightarrow> Omega \<Rightarrow> Quaternion" where
  \<comment> \<open>\<^verbatim>\<open>Expmap(angle, axis)\<close>\<close>
  "Expmap_angle_axis angle axis = AngleAxis angle axis"

definition Expmap :: "Omega \<Rightarrow> Quaternion" where
  "Expmap omega =
     (if isZero omega then Identity
      else (let angle = norm3 omega in AngleAxis angle (divide_by omega angle)))"

subsection \<open>Logmap\<close>

definition twoPi :: real where
  "twoPi = 2.0 * pi"

definition NearlyOne :: real where
  "NearlyOne = 1.0 - 1 / 10 ^ 10"

definition NearlyNegativeOne :: real where
  "NearlyNegativeOne = - 1.0 + 1 / 10 ^ 10"

definition wrap_angle :: "real \<Rightarrow> real" where
  \<comment> \<open>the two corrections of the general case, in the source's order\<close>
  "wrap_angle angle =
     (if angle > pi then angle - twoPi
      else if angle < - pi then angle + twoPi
      else angle)"

definition Logmap :: "Quaternion \<Rightarrow> Omega" where
  "Logmap q =
     (let qw = w q in
      if qw > NearlyOne then scale (2 - 2 * (qw - 1) / 3) (vec q)
      else if qw < NearlyNegativeOne then Zero
      else (let angle = 2 * arccos qw; s = sqrt (1 - qw * qw);
                angle = wrap_angle angle
            in scale (angle / s) (vec q)))"

text \<open>The three regimes of \<^const>\<open>Logmap\<close>, as the chain of comparisons selects them.\<close>

datatype regime = NearIdentity | NearAntipodal | General

definition Logmap_regime :: "real \<Rightarrow> regime" where
  "Logmap_regime qw =
     (if qw > NearlyOne then NearIdentity
      else if qw < NearlyNegativeOne then NearAntipodal
      else General)"

section \<open>Nonlinear equality constraints (cpp/testNonlinearConstraint.cpp)\<close>

text \<open>
  The test file constructs a unary constraint from two functions that it defines itself,
  \<^verbatim>\<open>test1::g_func\<close> and \<^verbatim>\<open>test1::grad_g\<close>, and checks \<^verbatim>\<open>error_vector\<close>, \<^verbatim>\<open>linearize\<close>
  and \<^verbatim>\<open>equals\<close> of \<^verbatim>\<open>NonlinearConstraint1\<close> on it. The class itself, the containers and
  the linear factor are declared in headers that the test includes.
\<close>

type_synonym Vector = "real list"

type_synonym Matrix = "real list list"

type_synonym VectorConfig = "string \<rightharpoonup> Vector"

datatype error = MissingKey string | IndexOutOfRange nat | DimensionMismatch

definition Vector_of :: "nat \<Rightarrow> real list \<Rightarrow> Vector" where
  \<comment> \<open>Modelled from the spec: the vector primitive \<^verbatim>\<open>Vector_(n, v1, ..., vn)\<close> (Vector.h is
      missing), a vector of the \<open>n\<close> values that follow the length\<close>
  "Vector_of n vals = take n vals"

definition Matrix_of :: "nat \<Rightarrow> nat \<Rightarrow> real list \<Rightarrow> Matrix" where
  \<comment> \<open>Modelled from the spec: the matrix primitive \<^verbatim>\<open>Matrix_(m, n, ...)\<close> (Matrix.h is
      missing), the \<open>m\<close> rows of \<open>n\<close> values each, given row by row\<close>
  "Matrix_of m n vals = map (\<lambda>i. take n (drop (i * n) vals)) [0..<m]"

definition eye :: "nat \<Rightarrow> Matrix" where
  \<comment> \<open>Modelled from the spec: \<^verbatim>\<open>eye(n)\<close> (Matrix.h is missing), the identity block\<close>
  "eye n = map (\<lambda>i. map (\<lambda>j. if i = j then 1 else 0) [0..<n]) [0..<n]"

definition zero :: "nat \<Rightarrow> Vector" where
  \<comment> \<open>Modelled from the spec: \<^verbatim>\<open>zero(n)\<close> (Vector.h is missing), the zero vector\<close>
  "zero n = replicate n 0"

definition vector_scale :: "Matrix \<Rightarrow> Vector \<Rightarrow> Matrix" where
  \<comment> \<open>Modelled from the spec: the Jacobian block scaled by the multiplier (Matrix.h is
      missing): row \<open>i\<close> of the block times component \<open>i\<close> of the multiplier\<close>
  "vector_scale A v = map (\<lambda>(row, c). map (\<lambda>a. a * c) row) (zip A v)"

definition lookup :: "VectorConfig \<Rightarrow> string \<Rightarrow> error + Vector" where
  \<comment> \<open>Modelled from the spec: \<^verbatim>\<open>config[key]\<close> (VectorConfig.h is missing); a key that is
      absent is a lookup failure surfaced to the caller, no default value is supplied\<close>
  "lookup config k = (case config k of None \<Rightarrow> Inl (MissingKey k) | Some v \<Rightarrow> Inr v)"

definition coeff :: "Vector \<Rightarrow> nat \<Rightarrow> error + real" where
  \<comment> \<open>\<^verbatim>\<open>v(i)\<close>, the read of one coefficient; outside the vector there is no value\<close>
  "coeff v i = (if i < length v then Inr (v ! i) else Inl (IndexOutOfRange i))"

subsection \<open>The functions of namespace test1\<close>

definition grad_g :: "VectorConfig \<Rightarrow> string \<Rightarrow> error + Matrix" where
  \<comment> \<open>p = 1, gradG(x) = 2x\<close>
  "grad_g config k =
     (case lookup config k of Inl e \<Rightarrow> Inl e
      | Inr v \<Rightarrow> (case coeff v 0 of Inl e \<Rightarrow> Inl e
          | Inr x \<Rightarrow> Inr (Matrix_of 1 1 [2 * x])))"

definition g_func :: "VectorConfig \<Rightarrow> string \<Rightarrow> error + Vector" where
  \<comment> \<open>p = 1, g(x) = x^2 - 5 = 0\<close>
  "g_func config k =
     (case lookup config k of Inl e \<Rightarrow> Inl e
      | Inr v \<Rightarrow> (case coeff v 0 of Inl e \<Rightarrow> Inl e
          | Inr x \<Rightarrow> Inr (Vector_of 1 [x * x - 5])))"

subsection \<open>The constraint factor and the linear factor\<close>

record NonlinearConstraint1 =
  key :: string
  gradG :: "VectorConfig \<Rightarrow> string \<Rightarrow> error + Matrix"
  g :: "VectorConfig \<Rightarrow> string \<Rightarrow> error + Vector"
  p :: nat
  lagrange_key :: string

definition NonlinearConstraint1 ::
  "string \<Rightarrow> (VectorConfig \<Rightarrow> string \<Rightarrow> error + Matrix) \<Rightarrow> (VectorConfig \<Rightarrow> string \<Rightarrow> error + Vector)
     \<Rightarrow> nat \<Rightarrow> string \<Rightarrow> NonlinearConstraint1" where
  \<comment> \<open>Modelled from the spec: the constructor of the unary constraint factor
      (NonlinearConstraint.h is missing): one primal key, the gradient function, the
      constraint function, the dimension p and the multiplier key, stored as given\<close>
  "NonlinearConstraint1 k grad gf dim_constraint lk =
     \<lparr>key = k, gradG = grad, g = gf, p = dim_constraint, lagrange_key = lk\<rparr>"

record GaussianFactor =
  As :: "(string \<times> Matrix) list"
  b :: Vector
  sigma :: real

definition GaussianFactor1 :: "string \<Rightarrow> Matrix \<Rightarrow> Vector \<Rightarrow> real \<Rightarrow> GaussianFactor" where
  \<comment> \<open>Modelled from the spec: the linear factor on one variable (GaussianFactor.h is
      missing): a matrix block keyed by the variable, a right-hand side and the noise level,
      0 for a hard equality row\<close>
  "GaussianFactor1 key1 A1 rhs s = \<lparr>As = [(key1, A1)], b = rhs, sigma = s\<rparr>"

definition GaussianFactor2 ::
  "string \<Rightarrow> Matrix \<Rightarrow> string \<Rightarrow> Matrix \<Rightarrow> Vector \<Rightarrow> real \<Rightarrow> GaussianFactor" where
  \<comment> \<open>Modelled from the spec: the linear factor on two variables (GaussianFactor.h is
      missing)\<close>
  "GaussianFactor2 key1 A1 key2 A2 rhs s = \<lparr>As = [(key1, A1), (key2, A2)], b = rhs, sigma = s\<rparr>"

definition equal_with_abs_tol :: "Vector \<Rightarrow> Vector \<Rightarrow> real \<Rightarrow> bool" where
  \<comment> \<open>Modelled from the spec: equality comparison with tolerance (Vector.h is missing):
      the same length and every pair of coefficients within the tolerance\<close>
  "equal_with_abs_tol u v tol = list_all2 (\<lambda>a c. \<bar>a - c\<bar> \<le> tol) u v"

definition assert_equal_factor :: "GaussianFactor \<Rightarrow> GaussianFactor \<Rightarrow> bool" where
  \<comment> \<open>Modelled from the spec: \<^verbatim>\<open>assert_equal\<close> on linear factors (GaussianFactor.h is
      missing): the same keys in the same order, and blocks, right-hand side and noise level
      equal within the default tolerance\<close>
  "assert_equal_factor f f' =
     (list_all2 (\<lambda>(k, A) (k', A'). k = k' \<and> list_all2 (\<lambda>r r'. equal_with_abs_tol r r' (1 / 10 ^ 9)) A A')
        (As f) (As f')
      \<and> equal_with_abs_tol (b f) (b f') (1 / 10 ^ 9)
      \<and> \<bar>sigma f - sigma f'\<bar> \<le> 1 / 10 ^ 9)"

subsection \<open>The operations of the constraint factor\<close>

definition error_vector :: "NonlinearConstraint1 \<Rightarrow> VectorConfig \<Rightarrow> error + Vector" where
  \<comment> \<open>Modelled from the spec: \<^verbatim>\<open>error_vector\<close> (NonlinearConstraint-inl.h is missing)
      evaluates g at the values bound to this factor's keys in the configuration\<close>
  "error_vector c config = g c config (key c)"

definition evaluate ::
  "NonlinearConstraint1 \<Rightarrow> VectorConfig \<Rightarrow> VectorConfig \<Rightarrow> error + (Vector \<times> Matrix \<times> Vector)" where
  \<comment> \<open>Modelled from the spec: steps 1 and 2 of \<^verbatim>\<open>linearize\<close> (NonlinearConstraint-inl.h is
      missing): g and the Jacobian block at the primal point, then the multiplier under
      the multiplier key; a block whose number of rows is not p or a multiplier whose size
      is not p aborts the linearization\<close>
  "evaluate c primalConfig multiplierConfig =
     (case g c primalConfig (key c) of Inl e \<Rightarrow> Inl e
      | Inr residual \<Rightarrow> (case gradG c primalConfig (key c) of Inl e \<Rightarrow> Inl e
          | Inr grad \<Rightarrow> (case lookup multiplierConfig (lagrange_key c) of Inl e \<Rightarrow> Inl e
              | Inr lambda \<Rightarrow>
                  if length grad = p c \<and> length lambda = p c then Inr (residual, grad, lambda)
                  else Inl DimensionMismatch)))"

definition cost_factor :: "NonlinearConstraint1 \<Rightarrow> Matrix \<Rightarrow> Vector \<Rightarrow> GaussianFactor" where
  \<comment> \<open>Modelled from the spec: step 3 of \<^verbatim>\<open>linearize\<close> (NonlinearConstraint-inl.h is
      missing): the Jacobian block scaled by the multiplier on the primal key, the identity
      on the multiplier key, the zero vector as right-hand side, unit precision\<close>
  "cost_factor c grad lambda =
     GaussianFactor2 (key c) (vector_scale grad lambda) (lagrange_key c) (eye (p c)) (zero (p c)) 1.0"

definition linearize ::
  "NonlinearConstraint1 \<Rightarrow> VectorConfig \<Rightarrow> VectorConfig \<Rightarrow> error + (GaussianFactor \<times> GaussianFactor)" where
  \<comment> \<open>Modelled from the spec: \<^verbatim>\<open>linearize\<close> (NonlinearConstraint-inl.h is missing) returns
      the cost factor and the constraint factor; the constraint factor has the raw Jacobian
      on the primal key, the negative of the current residual as right-hand side, and zero
      noise\<close>
  "linearize c primalConfig multiplierConfig =
     (case evaluate c primalConfig multiplierConfig of Inl e \<Rightarrow> Inl e
      | Inr (residual, grad, lambda) \<Rightarrow>
          Inr (cost_factor c grad lambda, GaussianFactor1 (key c) grad (map uminus residual) 0.0))"

definition equals :: "NonlinearConstraint1 \<Rightarrow> NonlinearConstraint1 \<Rightarrow> bool" where
  \<comment> \<open>Modelled from the spec: \<^verbatim>\<open>equals\<close> (NonlinearConstraint-inl.h is missing): the same
      primal key, the same constraint dimension and the same multiplier key; the two
      functions are not compared\<close>
  "equals c c' = (key c = key c' \<and> p c = p c' \<and> lagrange_key c = lagrange_key c')"

subsection \<open>The three tests\<close>

definition c1 :: NonlinearConstraint1 where
  "c1 = NonlinearConstraint1 ''x'' grad_g g_func 1 ''L_x1''"

definition c2 :: NonlinearConstraint1 where
  "c2 = NonlinearConstraint1 ''x'' grad_g g_func 1 ''L_x1''"

definition c3 :: NonlinearConstraint1 where
  "c3 = NonlinearConstraint1 ''x'' grad_g g_func 2 ''L_x1''"

definition c4 :: NonlinearConstraint1 where
  "c4 = NonlinearConstraint1 ''y'' grad_g g_func 1 ''L_x1''"

definition config :: VectorConfig where
  \<comment> \<open>\<^verbatim>\<open>config.insert("x", Vector_(1, 1.0))\<close> on the empty configuration\<close>
  "config = Map.empty(''x'' \<mapsto> Vector_of 1 [1.0])"

definition expected :: Vector where
  "expected = Vector_of 1 [- 4.0]"

definition realconfig :: VectorConfig where
  "realconfig = Map.empty(''x'' \<mapsto> Vector_of 1 [1.0])"

definition lagrangeConfig :: VectorConfig where
  "lagrangeConfig = Map.empty(''L_x1'' \<mapsto> Vector_of 1 [3.0])"

definition expFactor :: GaussianFactor where
  "expFactor = GaussianFactor2 ''x'' (Matrix_of 1 1 [6.0]) ''L_x1'' (eye 1) (zero 1) 1.0"

definition expConstraint :: GaussianFactor where
  "expConstraint = GaussianFactor1 ''x'' (Matrix_of 1 1 [2.0]) (Vector_of 1 [- 4.0]) 0.0"

definition unary_scalar_construction ::
  "(NonlinearConstraint1 \<Rightarrow> VectorConfig \<Rightarrow> error + Vector) \<Rightarrow> bool" where
  \<comment> \<open>the CHECK of the first test, for a given \<^verbatim>\<open>error_vector\<close>\<close>
  "unary_scalar_construction ev =
     (case ev c1 config of Inl e \<Rightarrow> False
      | Inr actual \<Rightarrow> equal_with_abs_tol actual expected (1 / 10 ^ 5))"

definition unary_scalar_linearize ::
  "(NonlinearConstraint1 \<Rightarrow> VectorConfig \<Rightarrow> VectorConfig \<Rightarrow> error + (GaussianFactor \<times> GaussianFactor))
     \<Rightarrow> bool" where
  \<comment> \<open>the two CHECKs of the second test, for a given \<^verbatim>\<open>linearize\<close>\<close>
  "unary_scalar_linearize lin =
     (case lin c1 realconfig lagrangeConfig of Inl e \<Rightarrow> False
      | Inr (actFactor, actConstraint) \<Rightarrow>
          assert_equal_factor actFactor expFactor \<and> assert_equal_factor actConstraint expConstraint)"

definition unary_scalar_equal :: "(NonlinearConstraint1 \<Rightarrow> NonlinearConstraint1 \<Rightarrow> bool) \<Rightarrow> bool" where
  \<comment> \<open>the four CHECKs of the third test, for a given \<^verbatim>\<open>equals\<close>\<close>
  "unary_scalar_equal eq = (eq c1 c2 \<and> eq c2 c1 \<and> \<not> eq c1 c3 \<and> \<not> eq c1 c4)"

section \<open>Properties of the chart\<close>

subsection \<open>Branch selection\<close>

lemma thresholds_ordered: "NearlyNegativeOne < NearlyOne"
  by (simp add: NearlyNegativeOne_def NearlyOne_def)

lemma general_range:
  assumes "\<not> qw > NearlyOne" "\<not> qw < NearlyNegativeOne"
  shows "- 1 < qw" "qw < 1"
  using assms by (simp_all add: NearlyOne_def NearlyNegativeOne_def)

lemma general_s_pos:
  assumes "\<not> qw > NearlyOne" "\<not> qw < NearlyNegativeOne"
  shows "0 < 1 - qw * qw"
proof -
  have "- 1 < qw" "qw < 1" using general_range [OF assms] .
  then have "0 < (1 - qw) * (1 + qw)" by simp
  then show ?thesis by (simp add: algebra_simps)
qed

text \<open>
  C7. Applied to the zero tangent vector, Expmap takes the \<^verbatim>\<open>isZero\<close> branch and returns
  the group identity itself: no trigonometric function is evaluated on that path.
\<close>

theorem Expmap_Zero:
  "isZero Zero \<and> Expmap Zero = Identity"
  by (simp add: isZero_def Zero_def Expmap_def dummy_precision_def)

text \<open>
  C8. A quaternion whose scalar part lies below the threshold \<^term>\<open>NearlyNegativeOne\<close>
  is sent to the zero tangent vector, whatever its vector part is.
\<close>

theorem Logmap_near_antipodal:
  assumes "w q < NearlyNegativeOne"
  shows "Logmap q = Zero"
  using assms thresholds_ordered by (simp add: Logmap_def Let_def)

theorem Logmap_near_antipodal_witness:
  "w \<lparr>w = - 1, vec = (3, 4, 5)\<rparr> < NearlyNegativeOne \<and> Logmap \<lparr>w = - 1, vec = (3, 4, 5)\<rparr> = Zero"
  using Logmap_near_antipodal [of "\<lparr>w = - 1, vec = (3, 4, 5)\<rparr>"]
  by (simp add: NearlyNegativeOne_def)

text \<open>
  C9. Logmap has a value on every quaternion, and the chain of comparisons puts each
  scalar part in exactly one regime: scalar part 1 is in the near-identity regime, scalar
  part -1 in the near-antipodal one. In the general regime the scalar part is inside
  the domain of \<^verbatim>\<open>acos\<close>, the argument of \<^verbatim>\<open>sqrt\<close> is positive and the divisor
  \<open>s = sqrt (1 - qw * qw)\<close> is strictly positive. The last conjunct states that the
  regime is the branch that \<^const>\<open>Logmap\<close> takes.
\<close>

theorem Logmap_total:
  "Logmap_regime 1 = NearIdentity \<and> Logmap_regime (- 1) = NearAntipodal \<and>
   (Logmap_regime (w q) = General \<longrightarrow>
      - 1 \<le> w q \<and> w q \<le> 1 \<and> 0 < 1 - w q * w q \<and> 0 < sqrt (1 - w q * w q)) \<and>
   Logmap q = (case Logmap_regime (w q) of
       NearIdentity \<Rightarrow> scale (2 - 2 * (w q - 1) / 3) (vec q)
     | NearAntipodal \<Rightarrow> Zero
     | General \<Rightarrow> scale (wrap_angle (2 * arccos (w q)) / sqrt (1 - w q * w q)) (vec q))"
proof -
  have a: "Logmap_regime 1 = NearIdentity"
    by (simp add: Logmap_regime_def NearlyOne_def)
  have b: "Logmap_regime (- 1) = NearAntipodal"
    by (simp add: Logmap_regime_def NearlyOne_def NearlyNegativeOne_def)
  have c: "- 1 \<le> w q \<and> w q \<le> 1 \<and> 0 < 1 - w q * w q \<and> 0 < sqrt (1 - w q * w q)"
    if "Logmap_regime (w q) = General"
  proof -
    from that have g: "\<not> w q > NearlyOne" "\<not> w q < NearlyNegativeOne"
      by (auto simp: Logmap_regime_def split: if_splits)
    from general_range [OF g] general_s_pos [OF g] show ?thesis by simp
  qed
  have d: "Logmap q = (case Logmap_regime (w q) of
       NearIdentity \<Rightarrow> scale (2 - 2 * (w q - 1) / 3) (vec q)
     | NearAntipodal \<Rightarrow> Zero
     | General \<Rightarrow> scale (wrap_angle (2 * arccos (w q)) / sqrt (1 - w q * w q)) (vec q))"
    by (simp add: Logmap_def Logmap_regime_def Let_def)
  from a b c d show ?thesis by blast
qed

theorem Logmap_total_witness:
  "Logmap_regime (w \<lparr>w = 0, vec = (1, 0, 0)\<rparr>) = General \<and>
   0 < sqrt (1 - w \<lparr>w = 0, vec = (1, 0, 0)\<rparr> * w \<lparr>w = 0, vec = (1, 0, 0)\<rparr>)"
  using Logmap_total [of "\<lparr>w = 0, vec = (1, 0, 0)\<rparr>"]
  by (simp add: Logmap_regime_def NearlyOne_def NearlyNegativeOne_def)

text \<open>
  C10. In the general branch the angle \<open>2 * acos qw\<close> lies in \<open>[0, 2 pi]\<close>. The
  comparison \<open>angle < - pi\<close> is therefore false, the correction is the subtraction of
  \<open>2 pi\<close> or nothing, and the corrected angle lies in \<open>(- pi, pi]\<close>.
\<close>

theorem Logmap_angle_range:
  assumes "\<not> qw > NearlyOne" and "\<not> qw < NearlyNegativeOne"
  shows "0 \<le> 2 * arccos qw \<and> 2 * arccos qw \<le> 2 * pi \<and> \<not> 2 * arccos qw < - pi \<and>
     wrap_angle (2 * arccos qw) =
       (if 2 * arccos qw > pi then 2 * arccos qw - twoPi else 2 * arccos qw) \<and>
     - pi < wrap_angle (2 * arccos qw) \<and> wrap_angle (2 * arccos qw) \<le> pi"
proof -
  have r: "- 1 \<le> qw" "qw \<le> 1" using general_range [OF assms] by simp_all
  have lo: "0 \<le> arccos qw" and hi: "arccos qw \<le> pi"
    using arccos_lbound [OF r] arccos_ubound [OF r] .
  have "arccos qw \<noteq> 0" using arccos_eq_0_iff [of qw] r general_range(2) [OF assms] by simp
  with lo have pos: "0 < arccos qw" by simp
  show ?thesis using pos hi pi_gt_zero by (simp add: wrap_angle_def twoPi_def)
qed

theorem Logmap_angle_range_witness:
  "\<not> (0::real) > NearlyOne \<and> \<not> (0::real) < NearlyNegativeOne \<and> wrap_angle (2 * arccos 0) = pi"
  using Logmap_angle_range [of 0]
  by (simp add: NearlyOne_def NearlyNegativeOne_def)

subsection \<open>Vector algebra\<close>

lemma norm3_nonneg: "0 \<le> norm3 v"
  by (cases v) (simp add: norm3_def)

lemma norm3_scale: "norm3 (scale c v) = \<bar>c\<bar> * norm3 v"
proof (cases v)
  case (fields a b d)
  have "c * a * (c * a) + c * b * (c * b) + c * d * (c * d) = c\<^sup>2 * (a * a + b * b + d * d)"
    by (simp add: power2_eq_square algebra_simps)
  then show ?thesis
    by (simp add: fields norm3_def scale_def real_sqrt_mult)
qed

lemma scale_scale: "scale c (scale e v) = scale (c * e) v"
  by (cases v) (simp add: scale_def)

lemma divide_by_scale: "divide_by v c = scale (1 / c) v"
  by (cases v) (simp add: scale_def divide_by_def)

lemma norm3_axis: "norm3 (a, 0, 0) = \<bar>a\<bar>"
  by (simp add: norm3_def)

lemma scale_one: "scale 1 v = v"
  by (cases v) (simp add: scale_def)

lemma difference_scale: "difference (scale c v) v = scale (c - 1) v"
  by (cases v) (simp add: difference_def scale_def algebra_simps)

lemma difference_self: "difference v v = Zero"
  by (cases v) (simp add: difference_def Zero_def)

lemma norm3_difference_Zero: "norm3 (difference Zero v) = norm3 v"
  by (cases v) (simp add: difference_def Zero_def norm3_def)

lemma isZero_norm3:
  assumes "isZero v"
  shows "norm3 v \<le> 2 / 10 ^ 12"
proof (cases v)
  case (fields a b d)
  with assms have "\<bar>a\<bar> \<le> \<bar>1 / 10 ^ 12\<bar>" "\<bar>b\<bar> \<le> \<bar>1 / 10 ^ 12\<bar>" "\<bar>d\<bar> \<le> \<bar>1 / 10 ^ 12\<bar>"
    by (simp_all add: isZero_def dummy_precision_def)
  then have "a\<^sup>2 \<le> (1 / 10 ^ 12)\<^sup>2" "b\<^sup>2 \<le> (1 / 10 ^ 12)\<^sup>2" "d\<^sup>2 \<le> (1 / 10 ^ 12)\<^sup>2"
    by (simp_all only: abs_le_square_iff)
  then have "a * a + b * b + d * d \<le> (2 / 10 ^ 12)\<^sup>2"
    by (simp add: power2_eq_square)
  then have "sqrt (a * a + b * b + d * d) \<le> 2 / 10 ^ 12"
    by (intro real_le_lsqrt) simp_all
  then show ?thesis by (simp add: fields norm3_def)
qed

lemma norm3_vec_unit:
  assumes "squaredNorm q = 1"
  shows "norm3 (vec q) = sqrt (1 - w q * w q)"
proof (cases "vec q")
  case (fields a b d)
  with assms have "a * a + b * b + d * d = 1 - w q * w q"
    by (simp add: squaredNorm_def)
  then show ?thesis by (simp add: fields norm3_def)
qed

lemma coeffs_distance_le:
  assumes "\<bar>w q1 - w q2\<bar> \<le> e1" and "norm3 (difference (vec q1) (vec q2)) \<le> e2"
  shows "coeffs_distance q1 q2 \<le> e1 + e2"
proof -
  have "coeffs_distance q1 q2 \<le> \<bar>w q1 - w q2\<bar> + \<bar>norm3 (difference (vec q1) (vec q2))\<bar>"
    unfolding coeffs_distance_def by (rule sqrt_sum_squares_le_sum_abs)
  also have "\<bar>norm3 (difference (vec q1) (vec q2))\<bar> = norm3 (difference (vec q1) (vec q2))"
    using norm3_nonneg by simp
  finally show ?thesis using assms by simp
qed

lemma coeffs_distance_self: "coeffs_distance q q = 0"
  by (simp add: coeffs_distance_def difference_self Zero_def norm3_def)

subsection \<open>Bounds on sine, cosine and arccosine near the thresholds\<close>

lemma sin_lipschitz: "\<bar>sin a - sin c\<bar> \<le> \<bar>a - c\<bar>" for a c :: real
proof -
  have "\<bar>sin a - sin c\<bar> = 2 * \<bar>sin ((a - c) / 2)\<bar> * \<bar>cos ((a + c) / 2)\<bar>"
    by (simp add: sin_diff_sin abs_mult)
  also have "\<dots> \<le> 2 * \<bar>(a - c) / 2\<bar> * 1"
    by (intro mult_mono mult_nonneg_nonneg abs_sin_x_le_abs_x abs_cos_le_one) simp_all
  finally show ?thesis by simp
qed

lemma cos_lipschitz: "\<bar>cos a - cos c\<bar> \<le> \<bar>a - c\<bar>" for a c :: real
proof -
  have "\<bar>cos a - cos c\<bar> = 2 * \<bar>sin ((c - a) / 2)\<bar> * \<bar>sin ((a + c) / 2)\<bar>"
    by (simp add: cos_diff_cos abs_mult mult.commute)
  also have "\<dots> \<le> 2 * \<bar>(c - a) / 2\<bar> * 1"
    by (intro mult_mono mult_nonneg_nonneg abs_sin_x_le_abs_x abs_sin_le_one) simp_all
  finally show ?thesis by simp
qed

lemma cos_lower: "1 - x\<^sup>2 / 2 \<le> cos (x::real)"
proof -
  have "\<bar>sin (x / 2)\<bar> \<le> \<bar>x / 2\<bar>" by (rule abs_sin_x_le_abs_x)
  then have "(sin (x / 2))\<^sup>2 \<le> (x / 2)\<^sup>2" by (simp only: abs_le_square_iff)
  moreover have "cos x = 1 - 2 * (sin (x / 2))\<^sup>2"
    using cos_double_sin [of "x / 2"] by simp
  ultimately show ?thesis by (simp add: power2_eq_square)
qed

lemma arccos_lower:
  assumes "- 1 \<le> y" and "y \<le> NearlyOne"
  shows "1 / 10 ^ 5 \<le> arccos y"
proof (rule ccontr)
  assume "\<not> 1 / 10 ^ 5 \<le> arccos y"
  then have lt: "arccos y < 1 / 10 ^ 5" by simp
  have y1: "y \<le> 1" using assms(2) by (simp add: NearlyOne_def)
  have "(1::real) / 10 ^ 5 \<le> 2" by simp
  also have "2 \<le> pi" by (rule pi_ge_two)
  finally have "(1::real) / 10 ^ 5 \<le> pi" .
  with lt arccos_lbound [OF assms(1) y1] have "cos (1 / 10 ^ 5) < cos (arccos y)"
    by (intro cos_monotone_0_pi) simp_all
  then have c: "cos (1 / 10 ^ 5) < y" using assms(1) y1 by simp
  have "1 - 1 / (2 * 10 ^ 10) \<le> cos (1 / 10 ^ 5 :: real)"
    using cos_lower [of "1 / 10 ^ 5"] by (simp add: power2_eq_square)
  from this c have "1 - 1 / (2 * 10 ^ 10) < y" by (rule le_less_trans)
  then show False using assms(2) by (simp add: NearlyOne_def)
qed

lemma sin_lower:
  assumes "0 \<le> (x::real)"
  shows "x - x ^ 3 / 6 \<le> sin x"
proof -
  have "\<bar>sin x - (\<Sum>m<3. sin_coeff m * x ^ m)\<bar> \<le> inverse (fact 3) * \<bar>x\<bar> ^ 3"
    by (rule Maclaurin_sin_bound)
  moreover have "(\<Sum>m<3. sin_coeff m * x ^ m) = x"
    by (simp add: sin_coeff_def eval_nat_numeral)
  moreover have "inverse (fact 3) * \<bar>x\<bar> ^ 3 = x ^ 3 / 6"
    using assms by (simp add: eval_nat_numeral)
  ultimately have "\<bar>sin x - x\<bar> \<le> x ^ 3 / 6" by simp
  then show ?thesis by linarith
qed

lemma small_half_angle:
  assumes x0: "0 \<le> x" and xpi: "x \<le> pi / 2" and c: "NearlyOne < cos x"
  shows "x < 2 / 10 ^ 5"
proof (rule ccontr)
  assume "\<not> x < 2 / 10 ^ 5"
  then have ge: "1 / 10 ^ 5 \<le> x / 2" by simp
  have "sin (1 / 10 ^ 5) \<le> sin (x / 2)"
    using ge xpi by (intro sin_monotone_2pi_le) simp_all
  moreover have "9 / 10 ^ 6 \<le> sin (1 / 10 ^ 5 :: real)"
  proof -
    have "(9::real) / 10 ^ 6 \<le> 1 / 10 ^ 5 - (1 / 10 ^ 5) ^ 3 / 6"
      by (simp add: power3_eq_cube)
    also have "\<dots> \<le> sin (1 / 10 ^ 5 :: real)"
      by (rule sin_lower) simp
    finally show ?thesis .
  qed
  ultimately have s: "9 / 10 ^ 6 \<le> sin (x / 2)" by simp
  then have "(9 / 10 ^ 6)\<^sup>2 \<le> (sin (x / 2))\<^sup>2"
    by (intro power_mono) simp_all
  moreover have "cos x = 1 - 2 * (sin (x / 2))\<^sup>2"
    using cos_double_sin [of "x / 2"] by simp
  ultimately have "cos x \<le> 1 - 2 * (9 / 10 ^ 6)\<^sup>2" by simp
  then show False using c by (simp add: NearlyOne_def power2_eq_square)
qed

lemma near_identity_error:
  assumes tpos: "0 < t" and tpi: "t < pi" and c: "NearlyOne < cos (t / 2)"
  shows "\<bar>(2 - 2 * (cos (t / 2) - 1) / 3) * sin (t / 2) - t\<bar> \<le> 1 / 10 ^ 14"
proof -
  define x where "x = t / 2"
  define K where "K = 2 - 2 * (cos x - 1) / 3"
  have x0: "0 \<le> x" and xpi: "x \<le> pi / 2" using tpos tpi by (simp_all add: x_def)
  have xs: "x < 2 / 10 ^ 5" using x0 xpi c by (intro small_half_angle) (simp_all add: x_def)
  have K2: "2 \<le> K" by (simp add: K_def)
  have Ku: "K - 2 \<le> 1 / 10 ^ 10"
    using c by (simp add: K_def x_def NearlyOne_def)
  have su: "sin x \<le> x" using x0 by (rule sin_x_le_x)
  have sl: "x - x ^ 3 / 6 \<le> sin x" using x0 by (rule sin_lower)
  have s0: "0 \<le> sin x" using x0 xpi pi_gt_zero by (intro sin_ge_zero) simp_all
  have "K * sin x \<le> K * x" using su K2 by (intro mult_left_mono) simp_all
  also have "\<dots> = 2 * x + (K - 2) * x" by (simp add: algebra_simps)
  also have "(K - 2) * x \<le> (1 / 10 ^ 10) * (2 / 10 ^ 5)"
    using Ku xs x0 K2 by (intro mult_mono) simp_all
  finally have up: "K * sin x - 2 * x \<le> 1 / 10 ^ 14" by simp
  have "x ^ 3 \<le> (2 / 10 ^ 5) ^ 3" using x0 xs by (intro power_mono) simp_all
  then have "x ^ 3 / 6 \<le> 1 / 10 ^ 14 / 2" by (simp add: power3_eq_cube)
  then have "2 * x - 1 / 10 ^ 14 \<le> 2 * sin x" using sl by simp
  also have "2 * sin x \<le> K * sin x" using K2 s0 by (intro mult_right_mono) simp_all
  finally have lo: "- (1 / 10 ^ 14) \<le> K * sin x - 2 * x" by simp
  have "- (K * sin x - 2 * x) \<le> 1 / 10 ^ 14" using lo by linarith
  with up have "\<bar>K * sin x - 2 * x\<bar> \<le> 1 / 10 ^ 14" by (rule abs_leI)
  then show ?thesis by (simp add: K_def x_def)
qed

subsection \<open>Logmap after Expmap\<close>

lemma Logmap_Identity: "Logmap Identity = Zero"
  by (simp add: Logmap_def Identity_def NearlyOne_def scale_def Zero_def)

lemma isZero_Expmap_w: "isZero v \<Longrightarrow> w (Expmap v) = 1"
  by (simp add: Expmap_def Identity_def)

lemma Logmap_Expmap_general:
  assumes lt: "norm3 v < pi" and nz: "\<not> isZero v" and le: "cos (norm3 v / 2) \<le> NearlyOne"
  shows "Logmap (Expmap v) = v"
proof -
  define t where "t = norm3 v"
  have t0: "0 \<le> t" unfolding t_def by (rule norm3_nonneg)
  have "t \<noteq> 0" using le by (auto simp: t_def NearlyOne_def)
  with t0 have tpos: "0 < t" by simp
  have E: "Expmap v = \<lparr>w = cos (t / 2), vec = scale (sin (t / 2) / t) v\<rparr>"
    using nz by (simp add: Expmap_def AngleAxis_def Let_def divide_by_scale scale_scale t_def)
  have cpos: "0 < cos (t / 2)"
    using tpos lt by (intro cos_gt_zero_pi) (simp_all add: t_def)
  have spos: "0 < sin (t / 2)"
    using tpos lt by (intro sin_gt_zero) (simp_all add: t_def)
  have b1: "\<not> cos (t / 2) > NearlyOne" using le by (simp add: t_def)
  have b2: "\<not> cos (t / 2) < NearlyNegativeOne"
    using cpos by (simp add: NearlyNegativeOne_def)
  have ac: "arccos (cos (t / 2)) = t / 2"
    using tpos lt by (intro arccos_cos) (simp_all add: t_def)
  have wr: "wrap_angle t = t"
    using tpos lt by (simp add: wrap_angle_def t_def)
  have "cos (t / 2) * cos (t / 2) + sin (t / 2) * sin (t / 2) = 1"
    by (rule sin_cos_squared_add3)
  then have "1 - cos (t / 2) * cos (t / 2) = (sin (t / 2))\<^sup>2"
    unfolding power2_eq_square by linarith
  then have s: "sqrt (1 - cos (t / 2) * cos (t / 2)) = sin (t / 2)"
    using spos by simp
  have "Logmap (Expmap v) = scale (t / sin (t / 2)) (scale (sin (t / 2) / t) v)"
    unfolding E using b1 b2 by (simp add: Logmap_def Let_def ac s wr)
  also have "\<dots> = v"
    using tpos spos by (simp add: scale_scale scale_one)
  finally show ?thesis .
qed

lemma Logmap_Expmap_exact:
  assumes "norm3 v < pi" and "v = Zero \<or> w (Expmap v) \<le> NearlyOne"
  shows "Logmap (Expmap v) = v"
proof (cases "isZero v")
  case True
  then have "w (Expmap v) = 1" by (rule isZero_Expmap_w)
  with assms(2) have "v = Zero" by (simp add: NearlyOne_def)
  then show ?thesis by (simp add: Expmap_def isZero_def Zero_def dummy_precision_def Logmap_Identity [unfolded Zero_def])
next
  case False
  with assms(2) have z: "v = Zero \<or> cos (norm3 v / 2) \<le> NearlyOne"
    by (simp add: Expmap_def AngleAxis_def Let_def)
  have "v \<noteq> Zero" using False by (auto simp: isZero_def Zero_def dummy_precision_def)
  with z have "cos (norm3 v / 2) \<le> NearlyOne" by simp
  with assms(1) False show ?thesis by (rule Logmap_Expmap_general)
qed

lemma Logmap_Expmap_near_identity:
  assumes lt: "norm3 v < pi" and nz: "\<not> isZero v" and c: "NearlyOne < cos (norm3 v / 2)"
  shows "norm3 (difference (Logmap (Expmap v)) v) \<le> 1 / 10 ^ 14"
proof -
  define t where "t = norm3 v"
  define K where "K = 2 - 2 * (cos (t / 2) - 1) / 3"
  have t0: "0 \<le> t" unfolding t_def by (rule norm3_nonneg)
  have "v \<noteq> Zero" using nz by (auto simp: isZero_def Zero_def dummy_precision_def)
  then have "t \<noteq> 0" by (cases v) (auto simp: t_def norm3_def Zero_def add_nonneg_eq_0_iff)
  with t0 have tpos: "0 < t" by simp
  have E: "Expmap v = \<lparr>w = cos (t / 2), vec = scale (sin (t / 2) / t) v\<rparr>"
    using nz by (simp add: Expmap_def AngleAxis_def Let_def divide_by_scale scale_scale t_def)
  have L: "Logmap (Expmap v) = scale (K * (sin (t / 2) / t)) v"
    unfolding E using c by (simp add: Logmap_def Let_def scale_scale K_def t_def)
  have "norm3 (difference (Logmap (Expmap v)) v) = \<bar>K * (sin (t / 2) / t) - 1\<bar> * t"
    by (simp add: L difference_scale norm3_scale t_def)
  also have "\<dots> = \<bar>(K * (sin (t / 2) / t) - 1) * t\<bar>"
    using tpos by (simp add: abs_mult)
  also have "(K * (sin (t / 2) / t) - 1) * t = K * sin (t / 2) - t"
    using tpos by (simp add: field_simps)
  also have "\<bar>K * sin (t / 2) - t\<bar> \<le> 1 / 10 ^ 14"
    unfolding K_def using tpos lt c by (intro near_identity_error) (simp_all add: t_def)
  finally show ?thesis .
qed

text \<open>
  C2. For every tangent vector \<open>v\<close> of norm below \<open>pi\<close>, Logmap after Expmap recovers
  \<open>v\<close> within numerical tolerance: the result is within \<open>2 / 10 ^ 12\<close> of \<open>v\<close> in the
  Euclidean norm. It is \<open>v\<close> itself when \<open>v\<close> is the zero vector or when the scalar part
  of \<open>Expmap v\<close> is at most \<^term>\<open>NearlyOne\<close>, so that Logmap takes its general branch.
\<close>

theorem Logmap_Expmap:
  assumes "norm3 v < pi"
  shows "norm3 (difference (Logmap (Expmap v)) v) \<le> 2 / 10 ^ 12 \<and>
    (v = Zero \<or> w (Expmap v) \<le> NearlyOne \<longrightarrow> Logmap (Expmap v) = v)"
proof -
  have exact: "Logmap (Expmap v) = v" if "v = Zero \<or> w (Expmap v) \<le> NearlyOne"
    using assms that by (rule Logmap_Expmap_exact)
  have "norm3 (difference (Logmap (Expmap v)) v) \<le> 2 / 10 ^ 12"
  proof (cases "isZero v")
    case True
    then have "Logmap (Expmap v) = Zero" by (simp add: Expmap_def Logmap_Identity)
    then show ?thesis using isZero_norm3 [OF True] by (simp add: norm3_difference_Zero)
  next
    case False
    show ?thesis
    proof (cases "cos (norm3 v / 2) \<le> NearlyOne")
      case True
      with assms False have "Logmap (Expmap v) = v" by (rule Logmap_Expmap_general)
      then show ?thesis by (simp add: difference_self Zero_def norm3_def)
    next
      case False
      then have "NearlyOne < cos (norm3 v / 2)" by simp
      with assms \<open>\<not> isZero v\<close> have "norm3 (difference (Logmap (Expmap v)) v) \<le> 1 / 10 ^ 14"
        by (rule Logmap_Expmap_near_identity)
      then show ?thesis by simp
    qed
  qed
  with exact show ?thesis by blast
qed

theorem Logmap_Expmap_witness:
  "norm3 (2 * pi / 3, 0, 0) < pi \<and> w (Expmap (2 * pi / 3, 0, 0)) \<le> NearlyOne \<and>
   Logmap (Expmap (2 * pi / 3, 0, 0)) = (2 * pi / 3, 0, 0)"
proof -
  have n: "norm3 (2 * pi / 3, 0, 0) < pi" unfolding norm3_axis by simp
  have "\<not> pi * 2 / 3 \<le> 1 / 10 ^ 12" using pi_ge_two by simp
  then have "\<not> isZero (2 * pi / 3, 0, 0)" by (simp add: isZero_def dummy_precision_def)
  then have "w (Expmap (2 * pi / 3, 0, 0)) = cos (pi / 3)"
    by (simp add: Expmap_def AngleAxis_def Let_def norm3_axis)
  then have c: "w (Expmap (2 * pi / 3, 0, 0)) \<le> NearlyOne"
    by (simp add: cos_60 NearlyOne_def)
  show ?thesis using n c Logmap_Expmap [of "(2 * pi / 3, 0, 0)"] by blast
qed

text \<open>
  The tolerance is needed: a nonzero vector that \<^verbatim>\<open>isZero\<close> accepts is sent to the
  identity by Expmap and to the zero vector by Logmap.
\<close>

lemma Logmap_Expmap_isZero_inexact:
  "norm3 (1 / 10 ^ 13, 0, 0) < pi \<and> Logmap (Expmap (1 / 10 ^ 13, 0, 0)) = (0, 0, 0)
     \<and> Logmap (Expmap (1 / 10 ^ 13, 0, 0)) \<noteq> (1 / 10 ^ 13, 0, 0)"
proof -
  have "(0::real) < pi" by simp
  have "(1::real) / 10 ^ 13 < 2" by simp
  also have "2 \<le> pi" by (rule pi_ge_two)
  finally have n: "norm3 (1 / 10 ^ 13, 0, 0) < pi" unfolding norm3_axis by simp
  have e: "Expmap (1 / 10 ^ 13, 0, 0) = Identity"
    by (simp add: Expmap_def isZero_def dummy_precision_def)
  have l: "Logmap (Expmap (1 / 10 ^ 13, 0, 0)) = (0, 0, 0)"
    unfolding e Logmap_Identity Zero_def ..
  show ?thesis using n l by simp
qed

subsection \<open>Expmap after Logmap\<close>

lemma Expmap_Logmap_general:
  assumes unit: "squaredNorm q = 1"
    and b1: "\<not> w q > NearlyOne" and b2: "\<not> w q < NearlyNegativeOne"
  shows "Expmap (Logmap q) = (if 0 \<le> w q then q else negate q)"
proof -
  define qw where "qw = w q"
  define s where "s = sqrt (1 - qw * qw)"
  define f where "f = arccos qw"
  define ang where "ang = wrap_angle (2 * f)"
  have r: "- 1 \<le> qw" "qw \<le> 1" using general_range [OF b1 b2] by (simp_all add: qw_def)
  have spos: "0 < s" using general_s_pos [OF b1 b2] by (simp add: s_def qw_def)
  have L: "Logmap q = scale (ang / s) (vec q)"
    using b1 b2 by (simp add: Logmap_def Let_def ang_def s_def f_def qw_def)
  have nv: "norm3 (vec q) = s" using norm3_vec_unit [OF unit] by (simp add: s_def qw_def)
  have nL: "norm3 (Logmap q) = \<bar>ang\<bar>"
    using spos by (simp add: L norm3_scale nv)
  have f0: "0 \<le> f" and fpi: "f \<le> pi"
    using arccos_lbound [OF r] arccos_ubound [OF r] by (simp_all add: f_def)
  have cf: "cos f = qw" using r by (simp add: f_def)
  have sf: "sin f = s" using r sin_arccos_abs [of qw] by (simp add: f_def s_def power2_eq_square)
  have flo: "1 / 10 ^ 5 \<le> f"
    using arccos_lower [of qw] r b1 by (simp add: f_def qw_def)
  have fhi: "f \<le> pi - 1 / 10 ^ 5"
  proof -
    have "- qw \<le> NearlyOne" using b2 by (simp add: qw_def NearlyOne_def NearlyNegativeOne_def)
    then have "1 / 10 ^ 5 \<le> arccos (- qw)" using r by (intro arccos_lower) simp_all
    then show ?thesis using arccos_minus [OF r] by (simp add: f_def)
  qed
  have ang_cases: "ang = (if 0 \<le> qw then 2 * f else 2 * f - 2 * pi)"
  proof (cases "0 \<le> qw")
    case True
    then have "f \<le> pi / 2" using r arccos_le_pi2 [of qw] by (simp add: f_def)
    then show ?thesis using True f0 by (simp add: ang_def wrap_angle_def)
  next
    case False
    then have "0 < - qw" by simp
    have "arccos (- qw) \<le> pi / 2" using False r by (intro arccos_le_pi2) simp_all
    moreover have "arccos (- qw) \<noteq> pi / 2"
    proof
      assume e: "arccos (- qw) = pi / 2"
      have "cos (arccos (- qw)) = - qw" using r by (intro cos_arccos) simp_all
      then have "cos (pi / 2) = - qw" unfolding e .
      then show False using False by simp
    qed
    ultimately have "arccos (- qw) < pi / 2" by simp
    then have "pi / 2 < f" using arccos_minus [OF r] by (simp add: f_def)
    then show ?thesis using False by (simp add: ang_def wrap_angle_def twoPi_def)
  qed
  have ang_abs: "2 / 10 ^ 5 \<le> \<bar>ang\<bar>"
    using flo fhi by (simp add: ang_cases)
  have nz: "\<not> isZero (Logmap q)"
  proof
    assume "isZero (Logmap q)"
    then have "norm3 (Logmap q) \<le> 2 / 10 ^ 12" by (rule isZero_norm3)
    with ang_abs show False by (simp add: nL)
  qed
  have ang0: "ang \<noteq> 0" using ang_abs by auto
  have E: "Expmap (Logmap q) =
      \<lparr>w = cos (\<bar>ang\<bar> / 2), vec = scale (sin (\<bar>ang\<bar> / 2) * (ang / \<bar>ang\<bar>) / s) (vec q)\<rparr>"
    using nz by (simp add: Expmap_def AngleAxis_def Let_def nL divide_by_scale) (simp add: L scale_scale)
  show ?thesis
  proof (cases "0 \<le> qw")
    case True
    then have a: "ang = 2 * f" by (simp add: ang_cases)
    have apos: "0 < ang" using flo by (simp add: a)
    have h1: "\<bar>ang\<bar> / 2 = f" and h2: "ang / \<bar>ang\<bar> = 1" using apos by (simp_all add: a)
    have "Expmap (Logmap q) = \<lparr>w = cos f, vec = scale (sin f * 1 / s) (vec q)\<rparr>"
      unfolding E h1 h2 ..
    then show ?thesis using True spos by (simp add: cf sf scale_one qw_def)
  next
    case False
    then have a: "ang = 2 * f - 2 * pi" by (simp add: ang_cases)
    have aneg: "ang < 0" using fhi by (simp add: a)
    have h1: "\<bar>ang\<bar> / 2 = pi - f" and h2: "ang / \<bar>ang\<bar> = - 1"
      using aneg by (simp_all add: a field_simps)
    have "Expmap (Logmap q) = \<lparr>w = cos (pi - f), vec = scale (sin (pi - f) * (- 1) / s) (vec q)\<rparr>"
      unfolding E h1 h2 ..
    then show ?thesis using False spos by (simp add: cf sf negate_def qw_def)
  qed
qed

lemma Expmap_Logmap_near_identity:
  assumes unit: "squaredNorm q = 1" and c: "NearlyOne < w q"
  shows "coeffs_distance (Expmap (Logmap q)) q \<le> 2 / 10 ^ 12"
proof -
  define K where "K = 2 - 2 * (w q - 1) / 3"
  define s where "s = norm3 (vec q)"
  have s0: "0 \<le> s" unfolding s_def by (rule norm3_nonneg)
  have ss: "s = sqrt (1 - w q * w q)" unfolding s_def using unit by (rule norm3_vec_unit)
  have "0 \<le> s\<^sup>2" by simp
  have w2: "w q * w q \<le> 1"
  proof (cases "vec q")
    case (fields a b d)
    have "w q * w q + a * a + b * b + d * d = 1"
      using unit fields by (simp add: squaredNorm_def)
    moreover have "0 \<le> a * a" "0 \<le> b * b" "0 \<le> d * d" by simp_all
    ultimately show ?thesis by linarith
  qed
  have wpos: "0 < w q" using c by (simp add: NearlyOne_def)
  have w1: "w q \<le> 1"
  proof (rule ccontr)
    assume "\<not> w q \<le> 1"
    then have "1 < w q" by simp
    then have "1 * 1 < w q * w q" by (intro mult_strict_mono) simp_all
    with w2 show False by simp
  qed
  have s2: "s\<^sup>2 = (1 - w q) * (1 + w q)"
    using w2 by (simp add: ss algebra_simps)
  have K2: "2 \<le> K" using w1 by (simp add: K_def)
  have L: "Logmap q = scale K (vec q)"
    using c by (simp add: Logmap_def Let_def K_def)
  have nL: "norm3 (Logmap q) = K * s"
    using K2 by (simp add: L norm3_scale s_def)
  show ?thesis
  proof (cases "isZero (Logmap q)")
    case True
    then have E: "Expmap (Logmap q) = Identity" by (simp add: Expmap_def)
    have "K * s \<le> 2 / 10 ^ 12" using isZero_norm3 [OF True] by (simp add: nL)
    moreover have "2 * s \<le> K * s" using K2 s0 by (intro mult_right_mono) simp_all
    ultimately have s_small: "s \<le> 1 / 10 ^ 12" by simp
    have "1 - w q \<le> (1 - w q) * (1 + w q)"
      using w1 wpos by (simp add: algebra_simps)
    also have "\<dots> = s\<^sup>2" by (simp add: s2)
    also have "s\<^sup>2 \<le> (1 / 10 ^ 12)\<^sup>2" using s_small s0 by (intro power_mono) simp_all
    also have "\<dots> \<le> 1 / 10 ^ 12" by (simp add: power2_eq_square)
    finally have dw: "\<bar>w Identity - w q\<bar> \<le> 1 / 10 ^ 12"
      using w1 by (simp add: Identity_def)
    have dv: "norm3 (difference (vec Identity) (vec q)) \<le> 1 / 10 ^ 12"
      using s_small norm3_difference_Zero [of "vec q"] by (simp add: Identity_def Zero_def s_def)
    show ?thesis unfolding E using coeffs_distance_le [OF dw dv] by simp
  next
    case False
    have "s \<noteq> 0"
    proof
      assume "s = 0"
      then have "norm3 (Logmap q) = 0" by (simp add: nL)
      then have "Logmap q = Zero"
        by (cases "Logmap q") (auto simp: norm3_def Zero_def add_nonneg_eq_0_iff)
      with False show False by (simp add: isZero_def Zero_def dummy_precision_def)
    qed
    with s0 have spos: "0 < s" by simp
    define f where "f = arccos (w q)"
    have r: "- 1 \<le> w q" "w q \<le> 1" using wpos w1 by simp_all
    have cf: "cos f = w q" using r by (simp add: f_def)
    have sf: "sin f = s" using sin_arccos_abs [of "w q"] r by (simp add: f_def ss power2_eq_square)
    have f0: "0 \<le> f" using arccos_lbound [OF r] by (simp add: f_def)
    have "f \<noteq> 0" using sf spos by auto
    with f0 have fpos: "0 < f" by simp
    have "f \<le> pi / 2" using arccos_le_pi2 [of "w q"] wpos w1 by (simp add: f_def)
    moreover have "f \<noteq> pi / 2"
    proof
      assume e: "f = pi / 2"
      have "cos (pi / 2) = w q" using cf unfolding e .
      with wpos show False by simp
    qed
    ultimately have fhalf: "f < pi / 2" by simp
    have "\<bar>(2 - 2 * (cos (2 * f / 2) - 1) / 3) * sin (2 * f / 2) - 2 * f\<bar> \<le> 1 / 10 ^ 14"
      using fpos fhalf c by (intro near_identity_error) (simp_all add: cf)
    then have err: "\<bar>K * s - 2 * f\<bar> \<le> 1 / 10 ^ 14" by (simp add: cf sf K_def)
    have "\<bar>K * s / 2 - f\<bar> = \<bar>K * s - 2 * f\<bar> / 2"
      by (simp add: abs_if field_simps)
    also have "\<dots> \<le> \<bar>K * s - 2 * f\<bar>" by simp
    finally have half: "\<bar>K * s / 2 - f\<bar> \<le> 1 / 10 ^ 14" using err by (rule order_trans)
    have Kpos: "0 < K" using K2 by simp
    have E: "Expmap (Logmap q) = \<lparr>w = cos (K * s / 2), vec = scale (sin (K * s / 2) / s) (vec q)\<rparr>"
      using False spos Kpos
      by (simp add: Expmap_def AngleAxis_def Let_def nL divide_by_scale) (simp add: L scale_scale)
    have "\<bar>cos (K * s / 2) - cos f\<bar> \<le> \<bar>K * s / 2 - f\<bar>" by (rule cos_lipschitz)
    with half have dw: "\<bar>w (Expmap (Logmap q)) - w q\<bar> \<le> 1 / 10 ^ 14"
      by (simp add: E cf)
    have "norm3 (difference (vec (Expmap (Logmap q))) (vec q)) = \<bar>sin (K * s / 2) / s - 1\<bar> * s"
      by (simp add: E difference_scale norm3_scale s_def)
    also have "\<dots> = \<bar>(sin (K * s / 2) / s - 1) * s\<bar>" using spos by (simp add: abs_mult)
    also have "(sin (K * s / 2) / s - 1) * s = sin (K * s / 2) - sin f"
      using spos by (simp add: field_simps sf)
    also have "\<bar>sin (K * s / 2) - sin f\<bar> \<le> \<bar>K * s / 2 - f\<bar>" by (rule sin_lipschitz)
    finally have dv: "norm3 (difference (vec (Expmap (Logmap q))) (vec q)) \<le> 1 / 10 ^ 14"
      using half by simp
    show ?thesis using coeffs_distance_le [OF dw dv] by simp
  qed
qed

text \<open>
  In the near-identity band the round trip is not exact: a unit quaternion whose image
  under Logmap \<^verbatim>\<open>isZero\<close> accepts is sent to the identity, whatever its vector part is.
\<close>

lemma Expmap_Logmap_isZero_inexact:
  "squaredNorm \<lparr>w = (10 ^ 26 - 1) / (10 ^ 26 + 1), vec = (2 * 10 ^ 13 / (10 ^ 26 + 1), 0, 0)\<rparr> = 1 \<and>
   NearlyOne < w \<lparr>w = (10 ^ 26 - 1) / (10 ^ 26 + 1), vec = (2 * 10 ^ 13 / (10 ^ 26 + 1), 0, 0)\<rparr> \<and>
   Expmap (Logmap \<lparr>w = (10 ^ 26 - 1) / (10 ^ 26 + 1), vec = (2 * 10 ^ 13 / (10 ^ 26 + 1), 0, 0)\<rparr>)
     \<noteq> \<lparr>w = (10 ^ 26 - 1) / (10 ^ 26 + 1), vec = (2 * 10 ^ 13 / (10 ^ 26 + 1), 0, 0)\<rparr> \<and>
   Expmap (Logmap \<lparr>w = (10 ^ 26 - 1) / (10 ^ 26 + 1), vec = (2 * 10 ^ 13 / (10 ^ 26 + 1), 0, 0)\<rparr>)
     \<noteq> negate \<lparr>w = (10 ^ 26 - 1) / (10 ^ 26 + 1), vec = (2 * 10 ^ 13 / (10 ^ 26 + 1), 0, 0)\<rparr>"
  by (simp add: squaredNorm_def Logmap_def Let_def NearlyOne_def NearlyNegativeOne_def Zero_def
      Expmap_def isZero_def dummy_precision_def Identity_def negate_def scale_def)

text \<open>
  C3 (as amended). For every unit quaternion \<open>q\<close> whose scalar part is at least
  \<^term>\<open>NearlyNegativeOne\<close>, and for the antipode of the identity, Expmap after Logmap
  returns \<open>q\<close> or its antipodal representative: within \<open>2 / 10 ^ 12\<close> in the Euclidean
  norm of the four coefficients, and exactly when the scalar part is at most
  \<^term>\<open>NearlyOne\<close> or \<open>q\<close> is the identity.
\<close>

theorem Expmap_Logmap:
  assumes "squaredNorm q = 1" and "NearlyNegativeOne \<le> w q \<or> q = negate Identity"
  shows "(coeffs_distance (Expmap (Logmap q)) q \<le> 2 / 10 ^ 12 \<or>
          coeffs_distance (Expmap (Logmap q)) (negate q) \<le> 2 / 10 ^ 12) \<and>
    (w q \<le> NearlyOne \<or> q = Identity \<longrightarrow>
       Expmap (Logmap q) = q \<or> Expmap (Logmap q) = negate q)"
proof -
  have exact: "Expmap (Logmap q) = q \<or> Expmap (Logmap q) = negate q"
    if h: "w q \<le> NearlyOne \<or> q = Identity"
  proof -
    consider "q = Identity" | "q = negate Identity"
      | "NearlyNegativeOne \<le> w q" "w q \<le> NearlyOne"
      using h assms(2) by blast
    then show ?thesis
    proof cases
      case 1
      have "Expmap (Logmap Identity) = Identity"
        by (simp add: Logmap_Identity Expmap_def isZero_def Zero_def dummy_precision_def)
      then show ?thesis by (simp add: 1)
    next
      case 2
      have "Logmap (negate Identity) = Zero"
        by (simp add: Logmap_def Let_def negate_def Identity_def NearlyOne_def NearlyNegativeOne_def)
      then have "Expmap (Logmap q) = Identity"
        by (simp add: 2 Expmap_def isZero_def Zero_def dummy_precision_def)
      moreover have "negate q = Identity"
        by (simp add: 2 negate_def Identity_def scale_def)
      ultimately show ?thesis by simp
    next
      case 3
      then have "\<not> w q > NearlyOne" "\<not> w q < NearlyNegativeOne" by simp_all
      with assms(1) have "Expmap (Logmap q) = (if 0 \<le> w q then q else negate q)"
        by (rule Expmap_Logmap_general)
      then show ?thesis by (simp split: if_splits)
    qed
  qed
  have "coeffs_distance (Expmap (Logmap q)) q \<le> 2 / 10 ^ 12 \<or>
      coeffs_distance (Expmap (Logmap q)) (negate q) \<le> 2 / 10 ^ 12"
  proof (cases "w q \<le> NearlyOne")
    case True
    then have "Expmap (Logmap q) = q \<or> Expmap (Logmap q) = negate q" by (simp add: exact)
    then show ?thesis by (auto simp: coeffs_distance_self)
  next
    case False
    then have "NearlyOne < w q" by simp
    with assms(1) have "coeffs_distance (Expmap (Logmap q)) q \<le> 2 / 10 ^ 12"
      by (rule Expmap_Logmap_near_identity)
    then show ?thesis by simp
  qed
  with exact show ?thesis by blast
qed

theorem Expmap_Logmap_witness:
  "squaredNorm \<lparr>w = 0, vec = (1, 0, 0)\<rparr> = 1 \<and>
   NearlyNegativeOne \<le> w \<lparr>w = 0, vec = (1, 0, 0)\<rparr> \<and> w \<lparr>w = 0, vec = (1, 0, 0)\<rparr> \<le> NearlyOne \<and>
   (Expmap (Logmap \<lparr>w = 0, vec = (1, 0, 0)\<rparr>) = \<lparr>w = 0, vec = (1, 0, 0)\<rparr> \<or>
    Expmap (Logmap \<lparr>w = 0, vec = (1, 0, 0)\<rparr>) = negate \<lparr>w = 0, vec = (1, 0, 0)\<rparr>)"
  using Expmap_Logmap [of "\<lparr>w = 0, vec = (1, 0, 0)\<rparr>"]
  by (simp add: squaredNorm_def NearlyOne_def NearlyNegativeOne_def)

text \<open>
  The round trip on every unit quaternion, as the spec states it, fails at a unit
  quaternion whose scalar part is below \<^term>\<open>NearlyNegativeOne\<close> and whose vector
  part is not zero: Logmap returns the zero vector and Expmap the identity.
\<close>

theorem Expmap_Logmap_counterexample:
  "squaredNorm \<lparr>w = - (10 ^ 12 - 1) / (10 ^ 12 + 1), vec = (2 * 10 ^ 6 / (10 ^ 12 + 1), 0, 0)\<rparr> = 1 \<and>
   Expmap (Logmap \<lparr>w = - (10 ^ 12 - 1) / (10 ^ 12 + 1), vec = (2 * 10 ^ 6 / (10 ^ 12 + 1), 0, 0)\<rparr>)
     \<noteq> \<lparr>w = - (10 ^ 12 - 1) / (10 ^ 12 + 1), vec = (2 * 10 ^ 6 / (10 ^ 12 + 1), 0, 0)\<rparr> \<and>
   Expmap (Logmap \<lparr>w = - (10 ^ 12 - 1) / (10 ^ 12 + 1), vec = (2 * 10 ^ 6 / (10 ^ 12 + 1), 0, 0)\<rparr>)
     \<noteq> negate \<lparr>w = - (10 ^ 12 - 1) / (10 ^ 12 + 1), vec = (2 * 10 ^ 6 / (10 ^ 12 + 1), 0, 0)\<rparr>"
  by (simp add: squaredNorm_def Logmap_def Let_def NearlyOne_def NearlyNegativeOne_def Zero_def
      Expmap_def isZero_def dummy_precision_def Identity_def negate_def scale_def)

section \<open>Properties of the constraint factor\<close>

lemmas test_defs = c1_def c2_def c3_def c4_def NonlinearConstraint1_def config_def realconfig_def
  lagrangeConfig_def expected_def expFactor_def expConstraint_def

lemmas primitive_defs = Vector_of_def Matrix_of_def eye_def zero_def vector_scale_def lookup_def
  coeff_def GaussianFactor1_def GaussianFactor2_def

lemma evaluate_c1: "evaluate c1 realconfig lagrangeConfig = Inr ([- 4], [[2]], [3])"
  by (simp add: evaluate_def test_defs g_func_def grad_g_def primitive_defs)

lemma cost_factor_c1: "cost_factor c1 [[2]] [3] = expFactor"
  by (simp add: cost_factor_def test_defs primitive_defs)

text \<open>
  C4. \<^verbatim>\<open>error_vector\<close> returns what the constraint function returns at the value bound
  to the factor's key; for the constraint of the test, whatever else the configuration
  holds, that is the 1-vector \<open>[x * x - 5]\<close>, and at \<open>x = 1\<close> the vector \<open>[-4]\<close> that
  the first test expects.
\<close>

theorem error_vector_residual:
  "error_vector c cfg = g c cfg (key c) \<and>
   error_vector c1 (cfg(''x'' \<mapsto> xval # rest)) = Inr [xval * xval - 5] \<and>
   error_vector c1 config = Inr [- 4] \<and>
   unary_scalar_construction error_vector"
proof -
  have a: "error_vector c1 (cfg(''x'' \<mapsto> xval # rest)) = Inr [xval * xval - 5]"
    by (simp add: error_vector_def test_defs g_func_def primitive_defs)
  have b: "error_vector c1 config = Inr [- 4]"
    by (simp add: error_vector_def test_defs g_func_def primitive_defs)
  have "equal_with_abs_tol [- 4] expected (1 / 10 ^ 5)"
    by (simp add: equal_with_abs_tol_def expected_def Vector_of_def)
  then have c: "unary_scalar_construction error_vector"
    unfolding unary_scalar_construction_def b by simp
  from a b c show ?thesis by (simp add: error_vector_def)
qed

text \<open>
  C5. Linearizing the constraint of the test at \<open>x = 1\<close> with the multiplier 3 gives a
  cost factor with the block \<open>[6]\<close> on \<open>x\<close>, the 1x1 identity on \<open>L_x1\<close>, the zero vector
  as right-hand side and the weight 1; it is the factor that the second test expects.
\<close>

theorem linearize_cost_factor:
  "map_sum id fst (linearize c1 realconfig lagrangeConfig) =
     Inr \<lparr>As = [(''x'', [[6]]), (''L_x1'', [[1]])], b = [0], sigma = 1\<rparr> \<and>
   map_sum id fst (linearize c1 realconfig lagrangeConfig) = Inr expFactor"
proof -
  have "map_sum id fst (linearize c1 realconfig lagrangeConfig) = Inr expFactor"
    by (simp add: linearize_def evaluate_c1 cost_factor_c1)
  moreover have "expFactor = \<lparr>As = [(''x'', [[6]]), (''L_x1'', [[1]])], b = [0], sigma = 1\<rparr>"
    by (simp add: test_defs primitive_defs)
  ultimately show ?thesis by simp
qed

text \<open>
  The constraint factor of \<^const>\<open>linearize\<close>, which follows the words of the spec, has
  the block \<open>[2]\<close>, zero noise and the negated residual \<open>[4]\<close> as right-hand side at
  \<open>x = 1\<close>. The factor that the second test expects of the program's \<^verbatim>\<open>linearize\<close>
  has the right-hand side \<open>[-4]\<close>, so the second CHECK of that test does not hold of
  \<^const>\<open>linearize\<close>: the spec and the test disagree on the sign, and the function that
  would decide between them is not among the sources.
\<close>

lemma linearize_rhs_spec_and_test:
  "map_sum id snd (linearize c1 realconfig lagrangeConfig) =
     Inr \<lparr>As = [(''x'', [[2]])], b = [4], sigma = 0\<rparr> \<and>
   expConstraint = \<lparr>As = [(''x'', [[2]])], b = [- 4], sigma = 0\<rparr> \<and>
   \<not> unary_scalar_linearize linearize"
proof -
  have e: "expConstraint = \<lparr>As = [(''x'', [[2]])], b = [- 4], sigma = 0\<rparr>"
    by (simp add: test_defs primitive_defs)
  have k: "key c1 = ''x''"
    by (simp add: c1_def NonlinearConstraint1_def)
  have n: "linearize c1 realconfig lagrangeConfig =
      Inr (expFactor, \<lparr>As = [(''x'', [[2]])], b = [4], sigma = 0\<rparr>)"
    by (simp add: linearize_def evaluate_c1 cost_factor_c1 GaussianFactor1_def k)
  have "\<not> equal_with_abs_tol [4] [- 4] (1 / 10 ^ 9)"
    by (simp add: equal_with_abs_tol_def)
  then have "\<not> assert_equal_factor \<lparr>As = [(''x'', [[2]])], b = [4], sigma = 0\<rparr> expConstraint"
    by (simp add: assert_equal_factor_def e)
  then have t: "\<not> unary_scalar_linearize linearize"
    unfolding unary_scalar_linearize_def n by simp
  from e n t show ?thesis by simp
qed

text \<open>
  C6. Two constraint factors are equal exactly when they have the same primal key, the
  same dimension p and the same multiplier key; the comparison is symmetric. Of the four
  factors of the third test, the first two are equal in both directions, and the first
  differs from the one with dimension 2 and from the one on the key \<open>y\<close>.
\<close>

theorem equals_iff:
  "(equals a a' \<longleftrightarrow> key a = key a' \<and> p a = p a' \<and> lagrange_key a = lagrange_key a') \<and>
   (equals a a' \<longleftrightarrow> equals a' a) \<and>
   equals c1 c2 \<and> equals c2 c1 \<and> \<not> equals c1 c3 \<and> \<not> equals c1 c4 \<and>
   unary_scalar_equal equals"
proof -
  have "equals a a' \<longleftrightarrow> equals a' a" by (auto simp: equals_def)
  moreover have "equals c1 c2 \<and> equals c2 c1 \<and> \<not> equals c1 c3 \<and> \<not> equals c1 c4"
    by (simp add: equals_def test_defs)
  ultimately show ?thesis by (simp add: unary_scalar_equal_def) (simp add: equals_def)
qed

end
